theory Spec2Isabelle
  imports Complex_Main
begin

section \<open>Python values\<close>

text \<open>
  The scoring code works on values decoded from JSON: \<open>None\<close>, booleans, unbounded
  integers, floats, strings, dicts with string keys and lists. A dict is an association
  list in insertion order (the order \<open>items()\<close> iterates in); a well-formed dict has
  pairwise distinct keys. A finite float is represented by the rational number it denotes;
  the two infinities and NaN, which \<open>json.loads\<close> accepts, are separate constructors.
  Scores are computed in exact rational arithmetic.
\<close>

datatype pyfloat = Finite rat | PosInf | NegInf | NaN

datatype pyval =
    VNone
  | VBool bool
  | VInt int
  | VFloat pyfloat
  | VStr string
  | VDict "(string \<times> pyval) list"
  | VList "pyval list"

type_synonym pydict = "(string \<times> pyval) list"

datatype pytype = TNone | TBool | TInt | TFloat | TStr | TDict | TList

text \<open>\<open>type(v)\<close>\<close>

fun py_type :: "pyval \<Rightarrow> pytype" where
  "py_type VNone = TNone"
| "py_type (VBool b) = TBool"
| "py_type (VInt i) = TInt"
| "py_type (VFloat f) = TFloat"
| "py_type (VStr s) = TStr"
| "py_type (VDict d) = TDict"
| "py_type (VList l) = TList"

text \<open>
  The numeric reading of a value: \<open>bool\<close> is a subclass of \<open>int\<close>, and Python compares
  an \<open>int\<close> with a \<open>float\<close> by their exact mathematical values.
\<close>

fun py_num :: "pyval \<Rightarrow> pyfloat option" where
  "py_num (VBool b) = Some (Finite (if b then 1 else 0))"
| "py_num (VInt i) = Some (Finite (of_int i))"
| "py_num (VFloat f) = Some f"
| "py_num v = None"

text \<open>Float equality: NaN is unequal to everything, itself included.\<close>

fun float_eq :: "pyfloat \<Rightarrow> pyfloat \<Rightarrow> bool" where
  "float_eq (Finite a) (Finite b) = (a = b)"
| "float_eq PosInf PosInf = True"
| "float_eq NegInf NegInf = True"
| "float_eq f g = False"

text \<open>
  \<open>a == b\<close>. Numbers compare across \<open>bool\<close>, \<open>int\<close> and \<open>float\<close>; lists compare
  element by element; two dicts are equal when they have the same number of entries and
  every key of the first is a key of the second with an equal value. The comparison of
  lists and dicts takes two elements as equal when they are the same object, before it
  asks \<open>==\<close>. The decoder hands out one NaN object for every NaN it reads, so inside a
  container NaN equals NaN, although \<open>nan == nan\<close> is false for the floats themselves.
  For every other value being the same object implies \<open>==\<close>.
\<close>

fun py_eq :: "pyval \<Rightarrow> pyval \<Rightarrow> bool"
and py_eq_list :: "pyval list \<Rightarrow> pyval list \<Rightarrow> bool"
and py_eq_items :: "pydict \<Rightarrow> pydict \<Rightarrow> bool" where
  "py_eq VNone b = (b = VNone)"
| "py_eq (VBool x) b = (case py_num b of Some g \<Rightarrow> float_eq (Finite (if x then 1 else 0)) g | None \<Rightarrow> False)"
| "py_eq (VInt i) b = (case py_num b of Some g \<Rightarrow> float_eq (Finite (of_int i)) g | None \<Rightarrow> False)"
| "py_eq (VFloat f) b = (case py_num b of Some g \<Rightarrow> float_eq f g | None \<Rightarrow> False)"
| "py_eq (VStr s) b = (b = VStr s)"
| "py_eq (VList xs) b = (case b of VList ys \<Rightarrow> py_eq_list xs ys | _ \<Rightarrow> False)"
| "py_eq (VDict d) b = (case b of VDict e \<Rightarrow> length d = length e \<and> py_eq_items d e | _ \<Rightarrow> False)"
| "py_eq_list [] ys = (ys = [])"
| "py_eq_list (x # xs) ys =
     (case ys of
        [] \<Rightarrow> False
      | y # ys' \<Rightarrow> ((x = VFloat NaN \<and> y = VFloat NaN) \<or> py_eq x y) \<and> py_eq_list xs ys')"
| "py_eq_items [] e = True"
| "py_eq_items (kv # d) e =
     ((case map_of e (fst kv) of
         None \<Rightarrow> False
       | Some w \<Rightarrow> (snd kv = VFloat NaN \<and> w = VFloat NaN) \<or> py_eq (snd kv) w)
      \<and> py_eq_items d e)"

section \<open>Similarity of values (tau-bench-repo/partial_scoring.py)\<close>

text \<open>
  \<open>compare_values\<close> with its two loops: \<open>dict_loop\<close> is the loop over
  \<open>expected.items()\<close> accumulating \<open>matching_keys\<close>, \<open>list_loop\<close> the loop over the
  expected items accumulating \<open>matches\<close>, and \<open>best_loop\<close> the inner loop over the actual
  items keeping \<open>best_match\<close>.
\<close>

fun compare_values :: "pyval \<Rightarrow> pyval \<Rightarrow> rat"
and dict_loop :: "pydict \<Rightarrow> pydict \<Rightarrow> rat \<Rightarrow> rat"
and list_loop :: "pyval list \<Rightarrow> pyval list \<Rightarrow> rat \<Rightarrow> rat"
and best_loop :: "pyval \<Rightarrow> pyval list \<Rightarrow> rat \<Rightarrow> rat" where
  "compare_values expected actual =
     (if py_eq expected actual then 1
      else if py_type expected \<noteq> py_type actual then 0
      else case expected of
        VDict e \<Rightarrow>
          (case actual of
             VDict a \<Rightarrow>
               if a = [] then 0
               else if length e = 0 then 1
               else dict_loop e a 0 / of_nat (length e)
           | _ \<Rightarrow> 0)
      | VList e \<Rightarrow>
          (case actual of
             VList a \<Rightarrow>
               if a = [] then (if e \<noteq> [] then 0 else 1)
               else if e = [] then 1
               else list_loop e a 0 / of_nat (length e)
           | _ \<Rightarrow> 0)
      | _ \<Rightarrow> 0)"
| "dict_loop [] a matching_keys = matching_keys"
| "dict_loop (kv # rest) a matching_keys =
     dict_loop rest a
       (case map_of a (fst kv) of
          Some act \<Rightarrow> matching_keys + compare_values (snd kv) act
        | None \<Rightarrow> matching_keys)"
| "list_loop [] a matches = matches"
| "list_loop (exp_item # rest) a matches =
     list_loop rest a (matches + best_loop exp_item a 0)"
| "best_loop exp_item [] best_match = best_match"
| "best_loop exp_item (act_item # rest) best_match =
     best_loop exp_item rest (max best_match (compare_values exp_item act_item))"

section \<open>Task score (tau-bench-repo/partial_scoring.py)\<close>

text \<open>
  Expected actions and actual calls are dicts read with \<open>.get\<close>: each of the keys
  \<open>name\<close>, \<open>kwargs\<close> and \<open>arguments\<close> may be absent (\<open>None\<close> here).
\<close>

record action =
  a_name :: "string option"
  a_kwargs :: "pyval option"
  a_arguments :: "pyval option"

text \<open>\<open>d.get(key, default)\<close>\<close>

fun get_default :: "'a option \<Rightarrow> 'a \<Rightarrow> 'a" where
  "get_default None d = d"
| "get_default (Some v) d = v"

text \<open>
  The body of the inner loop of \<open>calculate_partial_score\<close>: the score of one actual
  call against one expected action.
\<close>

definition call_score :: "action \<Rightarrow> action \<Rightarrow> rat" where
  "call_score expected actual =
     (let exp_name = get_default (a_name expected) [];
          exp_kwargs = get_default (a_kwargs expected) (VDict []);
          act_name = get_default (a_name actual) [];
          act_args = get_default (a_arguments actual) (get_default (a_kwargs actual) (VDict []))
      in if exp_name = act_name
         then 0 + 4 / 10 + 6 / 10 * compare_values exp_kwargs act_args
         else 0)"

fun best_score_loop :: "action \<Rightarrow> action list \<Rightarrow> rat \<Rightarrow> rat" where
  "best_score_loop expected [] best_score = best_score"
| "best_score_loop expected (actual # rest) best_score =
     best_score_loop expected rest (max best_score (call_score expected actual))"

fun total_score_loop :: "action list \<Rightarrow> action list \<Rightarrow> rat \<Rightarrow> rat" where
  "total_score_loop [] actual_calls total_score = total_score"
| "total_score_loop (expected # rest) actual_calls total_score =
     total_score_loop rest actual_calls (total_score + best_score_loop expected actual_calls 0)"

definition calculate_partial_score :: "action list \<Rightarrow> action list \<Rightarrow> rat" where
  "calculate_partial_score expected_actions actual_calls =
     (if expected_actions = [] then (if actual_calls = [] then 1 else 0)
      else total_score_loop expected_actions actual_calls 0 / of_nat (length expected_actions))"

section \<open>Trajectories and the extraction of tool calls\<close>

text \<open>
  A trajectory is a list of messages. A message may carry a role and a list of tool-call
  records (\<open>None\<close>: key absent or null); a record may carry a \<open>function\<close> dict with a
  name and an \<open>arguments\<close> field, which holds serialized text or a mapping that is
  already decoded. \<open>json.loads\<close> belongs to the Python library and is a parameter
  \<open>loads\<close> of the extractors: on text it yields the decoded mapping or fails, and on
  anything that is not text it raises a type error. The types fix what a trajectory is:
  the arguments text of a tool call is the text of a JSON object, so a text that decodes
  is a mapping, and the \<open>function\<close> entry of a record is a dict when it is present.
\<close>

datatype error = JSONDecodeError | TypeError | KeyError string

datatype arg_field = ArgText string | ArgStruct pydict

record raw_function =
  f_name :: "string option"
  f_arguments :: "arg_field option"

record raw_call =
  rc_function :: "raw_function option"

record message =
  m_role :: "string option"
  m_tool_calls :: "raw_call list option"

fun json_loads :: "(string \<Rightarrow> error + pydict) \<Rightarrow> arg_field \<Rightarrow> error + pydict" where
  "json_loads loads (ArgText s) = loads s"
| "json_loads loads (ArgStruct d) = Inl TypeError"

subsection \<open>tau-bench-repo: \<open>extract_tool_calls\<close>\<close>

text \<open>The body of the loop over the calls of one message, with its bare \<open>except\<close>.\<close>

definition extract_call :: "(string \<Rightarrow> error + pydict) \<Rightarrow> raw_call \<Rightarrow> action" where
  "extract_call loads call =
     (let func = get_default (rc_function call) \<lparr>f_name = None, f_arguments = None\<rparr>;
          name = get_default (f_name func) [];
          args_str = get_default (f_arguments func) (ArgText ''{}'');
          arguments = (case json_loads loads args_str of Inr d \<Rightarrow> d | Inl e \<Rightarrow> [])
      in \<lparr>a_name = Some name, a_kwargs = None, a_arguments = Some (VDict arguments)\<rparr>)"

fun calls_loop :: "(string \<Rightarrow> error + pydict) \<Rightarrow> raw_call list \<Rightarrow> action list \<Rightarrow> action list" where
  "calls_loop loads [] tool_calls = tool_calls"
| "calls_loop loads (call # rest) tool_calls =
     calls_loop loads rest (tool_calls @ [extract_call loads call])"

text \<open>\<open>message.get('tool_calls')\<close> is truthy for a non-empty list only.\<close>

fun messages_loop :: "(string \<Rightarrow> error + pydict) \<Rightarrow> message list \<Rightarrow> action list \<Rightarrow> action list" where
  "messages_loop loads [] tool_calls = tool_calls"
| "messages_loop loads (message # rest) tool_calls =
     messages_loop loads rest
       (case m_tool_calls message of
          None \<Rightarrow> tool_calls
        | Some cs \<Rightarrow> if cs = [] then tool_calls else calls_loop loads cs tool_calls)"

definition extract_tool_calls :: "(string \<Rightarrow> error + pydict) \<Rightarrow> message list \<Rightarrow> action list" where
  "extract_tool_calls loads trajectory = messages_loop loads trajectory []"

subsection \<open>improvements: \<open>extract_tool_calls_from_trajectory\<close>\<close>

text \<open>
  The improvements variant indexes the record (\<open>tool_call["function"]["name"]\<close>) and
  calls \<open>json.loads\<close> with no handler: an absent key and a failed decode both raise.
\<close>

record tool_call =
  t_name :: string
  t_arguments :: "pydict option"

definition extract_call_from :: "(string \<Rightarrow> error + pydict) \<Rightarrow> raw_call \<Rightarrow> error + tool_call" where
  "extract_call_from loads call =
     (case rc_function call of
        None \<Rightarrow> Inl (KeyError ''function'')
      | Some func \<Rightarrow>
          (case f_name func of
             None \<Rightarrow> Inl (KeyError ''name'')
           | Some name \<Rightarrow>
               (case f_arguments func of
                  None \<Rightarrow> Inl (KeyError ''arguments'')
                | Some args_str \<Rightarrow>
                    (case json_loads loads args_str of
                       Inl e \<Rightarrow> Inl e
                     | Inr d \<Rightarrow> Inr \<lparr>t_name = name, t_arguments = Some d\<rparr>))))"

fun calls_loop_from :: "(string \<Rightarrow> error + pydict) \<Rightarrow> raw_call list \<Rightarrow> tool_call list \<Rightarrow> error + tool_call list" where
  "calls_loop_from loads [] tool_calls = Inr tool_calls"
| "calls_loop_from loads (call # rest) tool_calls =
     (case extract_call_from loads call of
        Inl e \<Rightarrow> Inl e
      | Inr tc \<Rightarrow> calls_loop_from loads rest (tool_calls @ [tc]))"

fun entries_loop :: "(string \<Rightarrow> error + pydict) \<Rightarrow> message list \<Rightarrow> tool_call list \<Rightarrow> error + tool_call list" where
  "entries_loop loads [] tool_calls = Inr tool_calls"
| "entries_loop loads (entry # rest) tool_calls =
     (if m_role entry = Some ''assistant'' then
        (case m_tool_calls entry of
           None \<Rightarrow> entries_loop loads rest tool_calls
         | Some cs \<Rightarrow>
             (case calls_loop_from loads cs tool_calls of
                Inl e \<Rightarrow> Inl e
              | Inr tool_calls' \<Rightarrow> entries_loop loads rest tool_calls'))
      else entries_loop loads rest tool_calls)"

definition extract_tool_calls_from_trajectory :: "(string \<Rightarrow> error + pydict) \<Rightarrow> message list \<Rightarrow> error + tool_call list" where
  "extract_tool_calls_from_trajectory loads traj = entries_loop loads traj []"

section \<open>Argument comparison and matching (improvements/partial_scoring.py)\<close>

text \<open>
  \<open>str(value)\<close> returns a string unchanged; the text Python prints for any other value
  is produced by the interpreter and is a parameter \<open>repr\<close> here.
\<close>

fun py_str :: "(pyval \<Rightarrow> string) \<Rightarrow> pyval \<Rightarrow> string" where
  "py_str repr (VStr s) = s"
| "py_str repr v = repr v"

text \<open>The branch taken for one value in the loop of \<open>normalize_args\<close>.\<close>

fun normalize_value :: "(pyval \<Rightarrow> string) \<Rightarrow> pyval \<Rightarrow> pyval" where
  "normalize_value repr VNone = VNone"
| "normalize_value repr (VBool b) = VBool b"
| "normalize_value repr (VInt i) = VInt i"
| "normalize_value repr (VFloat f) = VFloat f"
| "normalize_value repr v = VStr (py_str repr v)"

fun normalize_args :: "(pyval \<Rightarrow> string) \<Rightarrow> pydict \<Rightarrow> pydict" where
  "normalize_args repr [] = []"
| "normalize_args repr (kv # rest) =
     (fst kv, normalize_value repr (snd kv)) # normalize_args repr rest"

text \<open>\<open>d.get(key)\<close>: the value, or \<open>None\<close> for an absent key.\<close>

definition dict_get :: "pydict \<Rightarrow> string \<Rightarrow> pyval" where
  "dict_get d key = (case map_of d key of None \<Rightarrow> VNone | Some v \<Rightarrow> v)"

fun matches_loop :: "pydict \<Rightarrow> pydict \<Rightarrow> string list \<Rightarrow> nat \<Rightarrow> nat" where
  "matches_loop expected_norm actual_norm [] matches = matches"
| "matches_loop expected_norm actual_norm (key # rest) matches =
     matches_loop expected_norm actual_norm rest
       (if py_eq (dict_get expected_norm key) (dict_get actual_norm key)
        then matches + 1 else matches)"

text \<open>
  \<open>all_keys\<close> is the union of the two key sets, here the list of the keys without
  repetitions; the order of iteration does not change the count.
\<close>

definition compare_arguments :: "(pyval \<Rightarrow> string) \<Rightarrow> pydict \<Rightarrow> pydict \<Rightarrow> rat" where
  "compare_arguments repr expected_args actual_args =
     (if expected_args = [] \<and> actual_args = [] then 1
      else
        let expected_norm = normalize_args repr expected_args;
            actual_norm = normalize_args repr actual_args;
            all_keys = remdups (map fst expected_norm @ map fst actual_norm)
        in if all_keys = [] then 1
           else of_nat (matches_loop expected_norm actual_norm all_keys 0)
                  / of_nat (length all_keys))"

record gold_action =
  g_name :: string
  g_kwargs :: "pydict option"

text \<open>The score of one tool call against one gold action, as the inner loop computes it.\<close>

definition pair_score :: "(pyval \<Rightarrow> string) \<Rightarrow> gold_action \<Rightarrow> tool_call \<Rightarrow> rat" where
  "pair_score repr gold_action tool_call =
     (let name_match = (if g_name gold_action = t_name tool_call then 1 else 0);
          gold_args = get_default (g_kwargs gold_action) [];
          tool_args = get_default (t_arguments tool_call) [];
          args_match = compare_arguments repr gold_args tool_args
      in 5 / 10 * name_match + 5 / 10 * args_match)"

text \<open>
  The inner loop over \<open>enumerate(tool_calls)\<close>; the state is
  \<open>(best_match, best_score, best_idx)\<close>.
\<close>

type_synonym best = "tool_call option \<times> rat \<times> int"

fun scan_loop :: "(pyval \<Rightarrow> string) \<Rightarrow> gold_action \<Rightarrow> int set \<Rightarrow> int \<Rightarrow> tool_call list \<Rightarrow> best \<Rightarrow> best" where
  "scan_loop repr gold_action used_tool_calls idx [] b = b"
| "scan_loop repr gold_action used_tool_calls idx (tool_call # rest) b =
     (if idx \<in> used_tool_calls then scan_loop repr gold_action used_tool_calls (idx + 1) rest b
      else if pair_score repr gold_action tool_call > fst (snd b)
           then scan_loop repr gold_action used_tool_calls (idx + 1) rest
                  (Some tool_call, pair_score repr gold_action tool_call, idx)
           else scan_loop repr gold_action used_tool_calls (idx + 1) rest b)"

type_synonym match = "gold_action \<times> tool_call option \<times> rat"

fun gold_loop :: "(pyval \<Rightarrow> string) \<Rightarrow> gold_action list \<Rightarrow> tool_call list \<Rightarrow> match list \<Rightarrow> int set \<Rightarrow> match list" where
  "gold_loop repr [] tool_calls matches used_tool_calls = matches"
| "gold_loop repr (gold_action # rest) tool_calls matches used_tool_calls =
     (case scan_loop repr gold_action used_tool_calls 0 tool_calls (None, 0, - 1) of
        (Some best_match, best_score, best_idx) \<Rightarrow>
          gold_loop repr rest tool_calls
            (matches @ [(gold_action, Some best_match, best_score)])
            (insert best_idx used_tool_calls)
      | (None, best_score, best_idx) \<Rightarrow>
          gold_loop repr rest tool_calls (matches @ [(gold_action, None, 0)]) used_tool_calls)"

definition match_actions_to_tool_calls :: "(pyval \<Rightarrow> string) \<Rightarrow> gold_action list \<Rightarrow> tool_call list \<Rightarrow> match list" where
  "match_actions_to_tool_calls repr gold_actions tool_calls =
     gold_loop repr gold_actions tool_calls [] {}"

text \<open>
  A task record: \<open>info\<close>, \<open>reward_info\<close> and \<open>actions\<close> may each be absent or null.
  \<open>calculate_tool_call_reward\<close> returns the reward with the detailed information.
\<close>

record reward_info =
  ri_actions :: "gold_action list option"

record info =
  i_reward_info :: "reward_info option"

record task =
  tk_info :: "info option"
  tk_traj :: "message list"

record detailed_info =
  d_gold_actions :: "gold_action list"
  d_extracted_tool_calls :: "tool_call list"
  d_matches :: "match list"
  d_tool_call_reward :: rat
  d_error :: "string option"

definition gold_actions_of :: "task \<Rightarrow> gold_action list option" where
  "gold_actions_of task =
     (case tk_info task of
        None \<Rightarrow> None
      | Some i \<Rightarrow> (case i_reward_info i of None \<Rightarrow> None | Some ri \<Rightarrow> ri_actions ri))"

definition calculate_tool_call_reward :: "(string \<Rightarrow> error + pydict) \<Rightarrow> (pyval \<Rightarrow> string) \<Rightarrow> task \<Rightarrow> error + rat \<times> detailed_info" where
  "calculate_tool_call_reward loads repr task =
     (case gold_actions_of task of
        None \<Rightarrow>
          Inr (0, \<lparr>d_gold_actions = [], d_extracted_tool_calls = [], d_matches = [],
                   d_tool_call_reward = 0,
                   d_error = Some ''No reward_info or actions available''\<rparr>)
      | Some gold_actions \<Rightarrow>
          (case extract_tool_calls_from_trajectory loads (tk_traj task) of
             Inl e \<Rightarrow> Inl e
           | Inr tool_calls \<Rightarrow>
               let matches = match_actions_to_tool_calls repr gold_actions tool_calls;
                   tool_call_reward =
                     (if matches = [] then 0
                      else sum_list (map (\<lambda>m. snd (snd m)) matches) / of_nat (length matches))
               in Inr (tool_call_reward,
                       \<lparr>d_gold_actions = gold_actions, d_extracted_tool_calls = tool_calls,
                        d_matches = matches, d_tool_call_reward = tool_call_reward,
                        d_error = None\<rparr>)))"

section \<open>Sample inputs\<close>

text \<open>
  A decoder that knows the empty object only and fails on every other text, and a
  rendering of containers of small integers and strings.
\<close>

definition sample_loads :: "string \<Rightarrow> error + pydict" where
  "sample_loads s = (if s = ''{}'' then Inr [] else Inl JSONDecodeError)"

fun sample_scalar :: "pyval \<Rightarrow> string" where
  "sample_scalar (VInt i) =
     (if i = 1 then ''1'' else if i = 2 then ''2'' else if i = 3 then ''3'' else ''?'')"
| "sample_scalar (VStr s) = s"
| "sample_scalar v = ''?''"

fun sample_repr :: "pyval \<Rightarrow> string" where
  "sample_repr (VDict d) =
     ''{'' @ concat (map (\<lambda>kv. fst kv @ '':'' @ sample_scalar (snd kv) @ '','') d) @ ''}''"
| "sample_repr (VList l) = ''['' @ concat (map (\<lambda>v. sample_scalar v @ '','') l) @ '']''"
| "sample_repr v = sample_scalar v"

definition book_flight :: action where
  "book_flight = \<lparr>a_name = Some ''book_flight'', a_kwargs = None,
                  a_arguments = Some (VDict [(''seat'', VStr ''A1'')])\<rparr>"

definition cancel_flight :: action where
  "cancel_flight = \<lparr>a_name = Some ''cancel_flight'', a_kwargs = None,
                    a_arguments = Some (VDict [(''seat'', VStr ''A1'')])\<rparr>"

definition expected_book_flight :: action where
  "expected_book_flight = \<lparr>a_name = Some ''book_flight'',
      a_kwargs = Some (VDict [(''seat'', VStr ''A1'')]), a_arguments = None\<rparr>"

definition gold_book_flight :: gold_action where
  "gold_book_flight = \<lparr>g_name = ''book_flight'', g_kwargs = Some [(''seat'', VStr ''A1'')]\<rparr>"

definition call_book_flight :: tool_call where
  "call_book_flight = \<lparr>t_name = ''book_flight'', t_arguments = Some [(''seat'', VStr ''A1'')]\<rparr>"

definition call_cancel_flight :: tool_call where
  "call_cancel_flight =
     \<lparr>t_name = ''cancel_flight'', t_arguments = Some [(''seat'', VStr ''A1'')]\<rparr>"

definition call_cancel_plain :: tool_call where
  "call_cancel_plain = \<lparr>t_name = ''cancel_flight'', t_arguments = Some []\<rparr>"

definition raw_book_flight :: "arg_field \<Rightarrow> raw_call" where
  "raw_book_flight args =
     \<lparr>rc_function = Some \<lparr>f_name = Some ''book_flight'', f_arguments = Some args\<rparr>\<rparr>"

definition bad_traj :: "message list" where
  "bad_traj =
     [\<lparr>m_role = Some ''assistant'', m_tool_calls = Some [raw_book_flight (ArgText ''{seat'')]\<rparr>]"

definition user_traj :: "message list" where
  "user_traj =
     [\<lparr>m_role = Some ''user'', m_tool_calls = Some [raw_book_flight (ArgText ''{}'')]\<rparr>]"

definition good_traj :: "message list" where
  "good_traj =
     [\<lparr>m_role = Some ''assistant'', m_tool_calls = Some [raw_book_flight (ArgText ''{}'')]\<rparr>]"

definition called_gold_task :: task where
  "called_gold_task =
     \<lparr>tk_info = Some \<lparr>i_reward_info = Some \<lparr>ri_actions = Some []\<rparr>\<rparr>, tk_traj = good_traj\<rparr>"

definition empty_gold_task :: task where
  "empty_gold_task =
     \<lparr>tk_info = Some \<lparr>i_reward_info = Some \<lparr>ri_actions = Some []\<rparr>\<rparr>, tk_traj = []\<rparr>"

definition seat_map :: "int \<Rightarrow> pyval" where
  "seat_map n = VDict [(''x'', VInt 1), (''y'', VInt n)]"

section \<open>Properties\<close>

declare compare_values.simps [simp del]

subsection \<open>The loops as sums\<close>

lemma compare_values_eq: "py_eq expected actual \<Longrightarrow> compare_values expected actual = 1"
  by (simp add: compare_values.simps)

lemma dict_loop_sum:
  "dict_loop e a acc =
     acc + (\<Sum>kv\<leftarrow>e. case map_of a (fst kv) of None \<Rightarrow> 0 | Some w \<Rightarrow> compare_values (snd kv) w)"
  by (induction e arbitrary: acc) (auto split: option.splits)

lemma py_eq_items_sum:
  "py_eq_items e a \<Longrightarrow> \<forall>kv\<in>set e. snd kv \<noteq> VFloat NaN \<Longrightarrow>
     (\<Sum>kv\<leftarrow>e. case map_of a (fst kv) of None \<Rightarrow> 0 | Some w \<Rightarrow> compare_values (snd kv) w)
       = of_nat (length e)"
  by (induction e) (auto split: option.splits simp: compare_values_eq)

lemma compare_values_dict_cases:
  "compare_values (VDict e) (VDict a) =
     (if py_eq (VDict e) (VDict a) \<or> e = [] then 1
      else (\<Sum>kv\<leftarrow>e. case map_of a (fst kv) of None \<Rightarrow> 0 | Some w \<Rightarrow> compare_values (snd kv) w)
             / of_nat (length e))"
proof (cases "py_eq (VDict e) (VDict a)")
  case True
  then show ?thesis by (simp add: compare_values_eq del: py_eq.simps)
next
  case False
  then show ?thesis
    by (cases e) (auto simp: compare_values.simps dict_loop_sum)
qed

lemma compare_values_dict:
  assumes "\<forall>kv\<in>set e. snd kv \<noteq> VFloat NaN"
  shows "compare_values (VDict e) (VDict a) =
     (if e = [] then 1
      else (\<Sum>kv\<leftarrow>e. case map_of a (fst kv) of None \<Rightarrow> 0 | Some w \<Rightarrow> compare_values (snd kv) w)
             / of_nat (length e))"
proof (cases "py_eq (VDict e) (VDict a)")
  case True
  then have "py_eq_items e a" by simp
  then show ?thesis using True assms
    by (simp add: compare_values_eq py_eq_items_sum del: py_eq.simps)
next
  case False
  then show ?thesis by (simp add: compare_values_dict_cases del: py_eq.simps)
qed

lemma sum_cong_keys:
  "\<forall>k\<in>fst ` set e. map_of a k = map_of a' k \<Longrightarrow>
   (\<Sum>kv\<leftarrow>e. case map_of a (fst kv) of None \<Rightarrow> 0 | Some w \<Rightarrow> compare_values (snd kv) w)
   = (\<Sum>kv\<leftarrow>e. case map_of a' (fst kv) of None \<Rightarrow> 0 | Some w \<Rightarrow> compare_values (snd kv) w)"
  by (induction e) auto

lemma normalize_args_keys: "map fst (normalize_args repr d) = map fst d"
  by (induction d) auto

lemma matches_loop_count:
  "matches_loop en an keys m =
     m + length (filter (\<lambda>key. py_eq (dict_get en key) (dict_get an key)) keys)"
  by (induction keys arbitrary: m) auto

lemma compare_arguments_count:
  "\<not> (e = [] \<and> a = []) \<Longrightarrow>
   compare_arguments repr e a =
     of_nat (length (filter (\<lambda>key. py_eq (dict_get (normalize_args repr e) key)
                                      (dict_get (normalize_args repr a) key))
                       (remdups (map fst e @ map fst a))))
       / of_nat (length (remdups (map fst e @ map fst a)))"
  by (cases e; cases a)
    (auto simp: compare_arguments_def normalize_args_keys matches_loop_count Let_def)

lemma py_eq_normalize_same:
  "v \<noteq> VFloat NaN \<Longrightarrow> py_eq (normalize_value repr v) (normalize_value repr v)"
proof (cases v)
  case (VFloat f)
  assume "v \<noteq> VFloat NaN"
  then show ?thesis using VFloat by (cases f) auto
qed auto

lemma dict_get_normalize_key:
  "k \<in> fst ` set d \<Longrightarrow>
   \<exists>v\<in>snd ` set d. dict_get (normalize_args repr d) k = normalize_value repr v"
  by (induction d) (auto simp: dict_get_def)

lemma compare_arguments_same:
  assumes "\<forall>kv\<in>set d. snd kv \<noteq> VFloat NaN"
  shows "compare_arguments repr d d = 1"
proof (cases "d = []")
  case True
  then show ?thesis by (simp add: compare_arguments_def)
next
  case False
  have "\<forall>k\<in>set (remdups (map fst d @ map fst d)).
          py_eq (dict_get (normalize_args repr d) k) (dict_get (normalize_args repr d) k)"
  proof
    fix k assume "k \<in> set (remdups (map fst d @ map fst d))"
    then have "k \<in> fst ` set d" by auto
    from dict_get_normalize_key [OF this, of repr] obtain v
      where v: "v \<in> snd ` set d" "dict_get (normalize_args repr d) k = normalize_value repr v"
      by auto
    from v(1) assms have "v \<noteq> VFloat NaN" by auto
    then show "py_eq (dict_get (normalize_args repr d) k) (dict_get (normalize_args repr d) k)"
      using v(2) py_eq_normalize_same [of v repr] by simp
  qed
  then have "filter (\<lambda>key. py_eq (dict_get (normalize_args repr d) key)
                              (dict_get (normalize_args repr d) key))
               (remdups (map fst d @ map fst d)) = remdups (map fst d @ map fst d)"
    by (simp only: filter_id_conv)
  moreover have "remdups (map fst d @ map fst d) \<noteq> []" using False by (cases d) auto
  ultimately show ?thesis using False by (simp add: compare_arguments_count)
qed

lemma total_score_loop_sum:
  "total_score_loop es calls t = t + (\<Sum>e\<leftarrow>es. best_score_loop e calls 0)"
  by (induction es arbitrary: t) auto

lemma best_score_loop_append:
  "best_score_loop e (xs @ ys) b = best_score_loop e ys (best_score_loop e xs b)"
  by (induction xs arbitrary: b) auto

lemma best_score_loop_ge: "b \<le> best_score_loop e xs b"
proof (induction xs arbitrary: b)
  case Nil
  then show ?case by simp
next
  case (Cons x xs)
  have "b \<le> max b (call_score e x)" by simp
  also have "\<dots> \<le> best_score_loop e xs (max b (call_score e x))" by (rule Cons.IH)
  finally show ?case by simp
qed

lemma calls_loop_map: "calls_loop loads cs acc = acc @ map (extract_call loads) cs"
  by (induction cs arbitrary: acc) auto

lemma messages_loop_concat:
  "messages_loop loads ms acc =
     acc @ concat (map (\<lambda>m. map (extract_call loads) (get_default (m_tool_calls m) [])) ms)"
  by (induction ms arbitrary: acc) (auto simp: calls_loop_map split: option.splits)

lemma entries_loop_filter:
  "entries_loop loads traj acc =
     entries_loop loads
       (filter (\<lambda>m. m_role m = Some ''assistant'' \<and> m_tool_calls m \<noteq> None) traj) acc"
  by (induction traj arbitrary: acc) (auto split: option.splits sum.splits)

lemma calls_loop_from_result:
  "calls_loop_from loads cs acc = Inr r \<Longrightarrow>
   r = acc @ map (\<lambda>c. projr (extract_call_from loads c)) cs"
proof (induction cs arbitrary: acc)
  case Nil
  then show ?case by simp
next
  case (Cons c cs)
  then obtain tc where tc: "extract_call_from loads c = Inr tc"
    and rest: "calls_loop_from loads cs (acc @ [tc]) = Inr r"
    by (auto split: sum.splits)
  from Cons.IH [OF rest] tc show ?case by simp
qed

lemma entries_loop_result:
  "entries_loop loads traj acc = Inr r \<Longrightarrow>
   r = acc @ concat (map (\<lambda>m. map (\<lambda>c. projr (extract_call_from loads c))
                                   (get_default (m_tool_calls m) []))
                      (filter (\<lambda>m. m_role m = Some ''assistant'' \<and> m_tool_calls m \<noteq> None) traj))"
proof (induction traj arbitrary: acc)
  case Nil
  then show ?case by simp
next
  case (Cons m traj)
  show ?case
  proof (cases "m_role m = Some ''assistant'' \<and> m_tool_calls m \<noteq> None")
    case False
    then have "entries_loop loads (m # traj) acc = entries_loop loads traj acc"
      by (auto split: option.splits)
    then show ?thesis using Cons False by auto
  next
    case True
    then obtain cs where cs: "m_tool_calls m = Some cs" by auto
    from Cons.prems True cs obtain acc' where
      a: "calls_loop_from loads cs acc = Inr acc'" and b: "entries_loop loads traj acc' = Inr r"
      by (auto split: sum.splits)
    from calls_loop_from_result [OF a] Cons.IH [OF b] show ?thesis
      using True cs by simp
  qed
qed

subsection \<open>Bounds of the loops\<close>

lemma loop_bounds:
  shows "0 \<le> compare_values expected actual \<and> compare_values expected actual \<le> 1"
  and "0 \<le> mk \<longrightarrow> (0 \<le> dict_loop e a mk \<and> dict_loop e a mk \<le> mk + of_nat (length e))"
  and "0 \<le> ms \<longrightarrow> (0 \<le> list_loop l b ms \<and> list_loop l b ms \<le> ms + of_nat (length l))"
  and "0 \<le> bm \<and> bm \<le> 1 \<longrightarrow> (0 \<le> best_loop x c bm \<and> best_loop x c bm \<le> 1)"
proof (induction expected actual and e a mk and l b ms and x c bm
    rule: compare_values_dict_loop_list_loop_best_loop.induct)
  case (1 expected actual)
  show ?case
  proof (cases "py_eq expected actual \<or> py_type expected \<noteq> py_type actual")
    case True
    then show ?thesis by (auto simp: compare_values.simps)
  next
    case False
    then have ne: "\<not> py_eq expected actual" and ty: "\<not> py_type expected \<noteq> py_type actual"
      by auto
    show ?thesis
    proof (cases expected)
      case (VDict d)
      then obtain d' where a: "actual = VDict d'" using ty by (cases actual) auto
      show ?thesis
      proof (cases "d' = [] \<or> length d = 0")
        case True
        then show ?thesis using VDict a ne by (auto simp: compare_values.simps)
      next
        case F: False
        from "1.IH"(1)[OF ne ty VDict a] F
        have "0 \<le> dict_loop d d' 0 \<and> dict_loop d d' 0 \<le> of_nat (length d)" by auto
        moreover have "compare_values expected actual = dict_loop d d' 0 / of_nat (length d)"
          using VDict a ne F by (auto simp: compare_values.simps)
        ultimately show ?thesis using F by (simp add: divide_le_eq)
      qed
    next
      case (VList d)
      then obtain d' where a: "actual = VList d'" using ty by (cases actual) auto
      show ?thesis
      proof (cases "d' = [] \<or> d = []")
        case True
        then show ?thesis using VList a ne by (auto simp: compare_values.simps)
      next
        case F: False
        from "1.IH"(2)[OF ne ty VList a] F
        have "0 \<le> list_loop d d' 0 \<and> list_loop d d' 0 \<le> of_nat (length d)" by auto
        moreover have "compare_values expected actual = list_loop d d' 0 / of_nat (length d)"
          using VList a ne F by (auto simp: compare_values.simps)
        ultimately show ?thesis using F by (simp add: divide_le_eq)
      qed
    qed (use ne ty in \<open>auto simp: compare_values.simps\<close>)
  qed
next
  case (2 a mk)
  then show ?case by simp
next
  case (3 kv rest a mk)
  then show ?case by (auto split: option.splits)
next
  case (4 a ms)
  then show ?case by simp
next
  case (5 exp_item rest a ms)
  then show ?case by auto
next
  case (6 x bm)
  then show ?case by simp
next
  case (7 x act_item rest bm)
  then show ?case by (auto simp: max_def)
qed

lemma compare_arguments_bounds:
  "0 \<le> compare_arguments repr e a \<and> compare_arguments repr e a \<le> 1"
  by (auto simp: compare_arguments_def Let_def divide_le_eq matches_loop_count)

lemma call_score_bounds: "0 \<le> call_score expected actual \<and> call_score expected actual \<le> 1"
  using loop_bounds(1) [of "get_default (a_kwargs expected) (VDict [])"
      "get_default (a_arguments actual) (get_default (a_kwargs actual) (VDict []))"]
  by (auto simp: call_score_def Let_def)

lemma best_score_loop_bounds:
  "0 \<le> b \<and> b \<le> 1 \<Longrightarrow>
   0 \<le> best_score_loop expected calls b \<and> best_score_loop expected calls b \<le> 1"
proof (induction calls arbitrary: b)
  case Nil
  then show ?case by simp
next
  case (Cons c calls)
  have "0 \<le> max b (call_score expected c) \<and> max b (call_score expected c) \<le> 1"
    using Cons.prems call_score_bounds [of expected c] by (auto simp: max_def)
  then show ?case using Cons.IH by simp
qed

lemma sum_list_unit_bounds:
  "(\<And>x. x \<in> set xs \<Longrightarrow> 0 \<le> f x \<and> f x \<le> (1::rat)) \<Longrightarrow>
   0 \<le> sum_list (map f xs) \<and> sum_list (map f xs) \<le> of_nat (length xs)"
  by (induction xs) (auto, force+)

lemma calculate_partial_score_bounds:
  "0 \<le> calculate_partial_score es calls \<and> calculate_partial_score es calls \<le> 1"
  using sum_list_unit_bounds [of es "\<lambda>e. best_score_loop e calls 0"]
    best_score_loop_bounds [of 0 _ calls]
  by (auto simp: calculate_partial_score_def total_score_loop_sum divide_le_eq)

subsection \<open>The scan of the pool\<close>

lemma scan_loop_append:
  "scan_loop repr g used idx (xs @ ys) b =
     scan_loop repr g used (idx + int (length xs)) ys (scan_loop repr g used idx xs b)"
  by (induction xs arbitrary: idx b) (auto simp: algebra_simps)

lemma scan_loop_none:
  "\<forall>x\<in>set xs. pair_score repr g x \<le> fst (snd b) \<Longrightarrow> scan_loop repr g used idx xs b = b"
  by (induction xs arbitrary: idx) auto

lemma scan_first:
  assumes "0 < pair_score repr g t" "\<forall>x\<in>set pre \<union> set post. pair_score repr g x \<le> 0"
  shows "scan_loop repr g {} 0 (pre @ t # post) (None, 0, - 1)
           = (Some t, pair_score repr g t, int (length pre))"
proof -
  have "scan_loop repr g {} 0 pre (None, 0, - 1) = (None, 0, - 1)"
    using assms by (intro scan_loop_none) auto
  moreover have "scan_loop repr g {} (int (length pre) + 1) post
      (Some t, pair_score repr g t, int (length pre))
      = (Some t, pair_score repr g t, int (length pre))"
    using assms by (intro scan_loop_none) force
  ultimately show ?thesis using assms(1) by (simp add: scan_loop_append)
qed

lemma scan_second:
  assumes "\<forall>x\<in>set pre \<union> set post. pair_score repr g x \<le> 0"
  shows "scan_loop repr g {int (length pre)} 0 (pre @ t # post) (None, 0, - 1) = (None, 0, - 1)"
proof -
  have "scan_loop repr g {int (length pre)} 0 pre (None, 0, - 1) = (None, 0, - 1)"
    using assms by (intro scan_loop_none) auto
  moreover have "scan_loop repr g {int (length pre)} (int (length pre) + 1) post (None, 0, - 1)
      = (None, 0, - 1)"
    using assms by (intro scan_loop_none) auto
  ultimately show ?thesis by (simp add: scan_loop_append)
qed

lemma pair_score_bounds: "0 \<le> pair_score repr g t \<and> pair_score repr g t \<le> 1"
  using compare_arguments_bounds [of repr "get_default (g_kwargs g) []" "get_default (t_arguments t) []"]
  by (auto simp: pair_score_def Let_def)

text \<open>
  A scan either leaves the state as it was or ends on a call of the pool that is not yet
  used, with the score of that call.
\<close>

lemma scan_loop_result:
  "scan_loop repr g used idx xs b = b
   \<or> (\<exists>t j. scan_loop repr g used idx xs b = (Some t, pair_score repr g t, j)
        \<and> idx \<le> j \<and> j < idx + int (length xs) \<and> j \<notin> used)"
proof (induction xs arbitrary: idx b)
  case Nil
  then show ?case by simp
next
  case (Cons x xs)
  show ?case
  proof (cases "idx \<notin> used \<and> pair_score repr g x > fst (snd b)")
    case True
    then have eq: "scan_loop repr g used idx (x # xs) b
        = scan_loop repr g used (idx + 1) xs (Some x, pair_score repr g x, idx)"
      by simp
    from Cons.IH [of "idx + 1" "(Some x, pair_score repr g x, idx)"] show ?thesis
      using eq True by auto
  next
    case False
    then have eq: "scan_loop repr g used idx (x # xs) b = scan_loop repr g used (idx + 1) xs b"
      by auto
    from Cons.IH [of "idx + 1" b] show ?thesis
      using eq by auto
  qed
qed

text \<open>Every bound result takes one more index of the pool into the set of used calls.\<close>

lemma gold_loop_bound:
  "finite used \<Longrightarrow> used \<subseteq> {0..<int (length tcs)} \<Longrightarrow>
   length (filter (\<lambda>m. fst (snd m) \<noteq> None) (gold_loop repr gs tcs ms used)) + card used
     \<le> length (filter (\<lambda>m. fst (snd m) \<noteq> None) ms) + length tcs"
proof (induction gs arbitrary: ms used)
  case Nil
  have "card used \<le> card {0..<int (length tcs)}"
    using Nil by (intro card_mono) auto
  then show ?case by simp
next
  case (Cons g gs)
  from scan_loop_result [of repr g used 0 tcs "(None, 0, - 1)"]
  consider (none) "scan_loop repr g used 0 tcs (None, 0, - 1) = (None, 0, - 1)"
    | (some) t j where "scan_loop repr g used 0 tcs (None, 0, - 1) = (Some t, pair_score repr g t, j)"
        "0 \<le> j" "j < int (length tcs)" "j \<notin> used"
    by auto
  then show ?case
  proof cases
    case none
    then show ?thesis using Cons.IH [OF Cons.prems, of "ms @ [(g, None, 0)]"] by simp
  next
    case some
    have f: "finite (insert j used)" using Cons.prems by simp
    have s: "insert j used \<subseteq> {0..<int (length tcs)}" using Cons.prems some by auto
    have c: "card (insert j used) = card used + 1" using Cons.prems some by simp
    show ?thesis
      using Cons.IH [OF f s, of "ms @ [(g, Some t, pair_score repr g t)]"] some c by simp
  qed
qed

lemma bound_results_le_pool:
  "length (filter (\<lambda>m. fst (snd m) \<noteq> None) (match_actions_to_tool_calls repr gs tcs)) \<le> length tcs"
  using gold_loop_bound [of "{}" tcs repr gs "[]"]
  by (simp add: match_actions_to_tool_calls_def)

lemma gold_loop_scores:
  "\<forall>m\<in>set ms. 0 \<le> snd (snd m) \<and> snd (snd m) \<le> 1 \<Longrightarrow>
   \<forall>m\<in>set (gold_loop repr gs tcs ms used). 0 \<le> snd (snd m) \<and> snd (snd m) \<le> 1"
proof (induction gs arbitrary: ms used)
  case Nil
  then show ?case by simp
next
  case (Cons g gs)
  from scan_loop_result [of repr g used 0 tcs "(None, 0, - 1)"]
  consider (none) "scan_loop repr g used 0 tcs (None, 0, - 1) = (None, 0, - 1)"
    | (some) t j where "scan_loop repr g used 0 tcs (None, 0, - 1) = (Some t, pair_score repr g t, j)"
    by auto
  then show ?case
  proof cases
    case none
    have "\<forall>m\<in>set (ms @ [(g, None, 0)]). 0 \<le> snd (snd m) \<and> snd (snd m) \<le> 1"
      using Cons.prems by auto
    from Cons.IH [OF this] show ?thesis using none by simp
  next
    case some
    have "\<forall>m\<in>set (ms @ [(g, Some t, pair_score repr g t)]). 0 \<le> snd (snd m) \<and> snd (snd m) \<le> 1"
      using Cons.prems pair_score_bounds [of repr g t] by auto
    from Cons.IH [OF this] show ?thesis using some by simp
  qed
qed

lemma reward_bounds:
  "calculate_tool_call_reward loads repr task = Inr (r, d) \<Longrightarrow> 0 \<le> r \<and> r \<le> 1"
proof -
  assume a: "calculate_tool_call_reward loads repr task = Inr (r, d)"
  have b: "\<And>gs tcs. 0 \<le> sum_list (map (\<lambda>m. snd (snd m)) (match_actions_to_tool_calls repr gs tcs))
      \<and> sum_list (map (\<lambda>m. snd (snd m)) (match_actions_to_tool_calls repr gs tcs))
          \<le> of_nat (length (match_actions_to_tool_calls repr gs tcs))"
    using gold_loop_scores [of "[]" repr _ _ "{}"]
    by (intro sum_list_unit_bounds) (auto simp: match_actions_to_tool_calls_def)
  show ?thesis
    using a b
    by (auto simp: calculate_tool_call_reward_def Let_def divide_le_eq
        split: option.splits sum.splits if_splits)
qed

subsection \<open>Normalized arguments\<close>

lemma normalize_coerced:
  "py_type v \<notin> {TNone, TBool, TInt, TFloat} \<Longrightarrow> normalize_value repr v = VStr (py_str repr v)"
  by (cases v) auto

lemma dict_get_normalize:
  "dict_get (normalize_args repr d) k =
     (case map_of d k of None \<Rightarrow> VNone | Some v \<Rightarrow> normalize_value repr v)"
  by (induction d) (auto simp: dict_get_def)

subsection \<open>A candidate with the wrong name\<close>

text \<open>
  C1, for \<open>match_actions_to_tool_calls\<close>: the gold action \<open>book_flight(seat = "A1")\<close>
  against the call \<open>cancel_flight(seat = "A1")\<close>, a wrong name with identical arguments,
  scores 0.5 and is bound as the match.
\<close>

theorem wrong_name_partial_credit_counterexample:
  "g_name gold_book_flight \<noteq> t_name call_cancel_flight
   \<and> g_kwargs gold_book_flight = t_arguments call_cancel_flight
   \<and> pair_score sample_repr gold_book_flight call_cancel_flight = 1 / 2
   \<and> match_actions_to_tool_calls sample_repr [gold_book_flight] [call_cancel_flight]
       = [(gold_book_flight, Some call_cancel_flight, 1 / 2)]"
  by (simp add: gold_book_flight_def call_cancel_flight_def pair_score_def
      compare_arguments_def dict_get_def match_actions_to_tool_calls_def)

text \<open>
  C1, as the code has it: in \<open>calculate_partial_score\<close> a call whose name differs from
  the expected name scores exactly 0 whatever its arguments are, and the best score of the
  expected action is the same with and without that call; in
  \<open>match_actions_to_tool_calls\<close> such a call scores half of the argument similarity,
  which is 0.5 when its arguments are the expected ones and none of their values is NaN.
\<close>

theorem wrong_name_score:
  "(get_default (a_name expected) [] \<noteq> get_default (a_name actual) [] \<longrightarrow>
      call_score expected actual = 0
      \<and> best_score_loop expected (pre @ actual # post) 0 = best_score_loop expected (pre @ post) 0)
   \<and> (g_name g \<noteq> t_name tc \<longrightarrow>
        pair_score repr g tc =
          1 / 2 * compare_arguments repr (get_default (g_kwargs g) [])
                    (get_default (t_arguments tc) []))
   \<and> (g_name g \<noteq> t_name tc \<longrightarrow>
        get_default (t_arguments tc) [] = get_default (g_kwargs g) [] \<longrightarrow>
        (\<forall>kv\<in>set (get_default (g_kwargs g) []). snd kv \<noteq> VFloat NaN) \<longrightarrow>
        pair_score repr g tc = 1 / 2)"
proof -
  have "0 \<le> best_score_loop expected pre 0" by (rule best_score_loop_ge)
  then show ?thesis
    using compare_arguments_same [of "get_default (g_kwargs g) []" repr]
    by (auto simp: call_score_def pair_score_def Let_def best_score_loop_append max_def)
qed

theorem wrong_name_score_witness:
  "get_default (a_name expected_book_flight) [] \<noteq> get_default (a_name cancel_flight) []
   \<and> call_score expected_book_flight cancel_flight = 0
   \<and> best_score_loop expected_book_flight ([book_flight] @ cancel_flight # []) 0
       = best_score_loop expected_book_flight ([book_flight] @ []) 0
   \<and> g_name gold_book_flight \<noteq> t_name call_cancel_flight
   \<and> pair_score sample_repr gold_book_flight call_cancel_flight =
        1 / 2 * compare_arguments sample_repr (get_default (g_kwargs gold_book_flight) [])
                  (get_default (t_arguments call_cancel_flight) [])
   \<and> get_default (t_arguments call_cancel_flight) [] = get_default (g_kwargs gold_book_flight) []
   \<and> get_default (g_kwargs gold_book_flight) [] = [(''seat'', VStr ''A1'')]
   \<and> VStr ''A1'' \<noteq> VFloat NaN
   \<and> pair_score sample_repr gold_book_flight call_cancel_flight = 1 / 2"
  using wrong_name_score [of expected_book_flight cancel_flight "[book_flight]" "[]"
      gold_book_flight call_cancel_flight sample_repr]
  by (simp add: expected_book_flight_def cancel_flight_def gold_book_flight_def
      call_cancel_flight_def)

subsection \<open>One call for one gold action\<close>

text \<open>
  C2, for \<open>calculate_partial_score\<close>: two identical expected actions and one matching
  call. Both actions take the score 1 of the same call, so the task score is 1 and not the
  mean of 1 and 0.
\<close>

theorem reused_call_counterexample:
  "best_score_loop expected_book_flight [book_flight] 0 = 1
   \<and> calculate_partial_score [expected_book_flight, expected_book_flight] [book_flight] = 1
   \<and> calculate_partial_score [expected_book_flight, expected_book_flight] [book_flight]
       \<noteq> (1 + 0) / 2"
  by (simp add: expected_book_flight_def book_flight_def calculate_partial_score_def
      call_score_def compare_values.simps)

text \<open>
  C2, as the code has it: \<open>match_actions_to_tool_calls\<close> skips every call already bound.
  For two identical gold actions and a pool in which exactly one call scores above zero,
  the first result binds that call and the second is \<open>None\<close> with score 0.
  For all gold actions and pools, the results that bind a call are at most as many as the
  calls of the pool. \<open>calculate_partial_score\<close> keeps no pool: each of two identical
  expected actions gets the best score over all calls.
\<close>

theorem one_to_one_matching:
  assumes "0 < pair_score repr g t" "\<forall>x\<in>set pre \<union> set post. pair_score repr g x \<le> 0"
  shows "match_actions_to_tool_calls repr [g, g] (pre @ t # post)
           = [(g, Some t, pair_score repr g t), (g, None, 0)]
         \<and> calculate_partial_score [e, e] calls = best_score_loop e calls 0
         \<and> length (filter (\<lambda>m. fst (snd m) \<noteq> None) (match_actions_to_tool_calls repr gs tcs))
             \<le> length tcs"
  using scan_first [OF assms] scan_second [OF assms(2)] bound_results_le_pool [of repr gs tcs]
  by (simp add: match_actions_to_tool_calls_def calculate_partial_score_def total_score_loop_sum)

theorem one_to_one_matching_witness:
  "0 < pair_score sample_repr gold_book_flight call_book_flight
   \<and> pair_score sample_repr gold_book_flight call_cancel_plain \<le> 0
   \<and> match_actions_to_tool_calls sample_repr [gold_book_flight, gold_book_flight]
        ([call_cancel_plain] @ call_book_flight # [])
       = [(gold_book_flight, Some call_book_flight, 1), (gold_book_flight, None, 0)]
   \<and> calculate_partial_score [expected_book_flight, expected_book_flight] [book_flight]
       = best_score_loop expected_book_flight [book_flight] 0"
proof -
  have a: "0 < pair_score sample_repr gold_book_flight call_book_flight"
    by (simp add: gold_book_flight_def call_book_flight_def pair_score_def
        compare_arguments_def dict_get_def)
  have b: "\<forall>x\<in>set [call_cancel_plain] \<union> set []. pair_score sample_repr gold_book_flight x \<le> 0"
    by (simp add: gold_book_flight_def call_cancel_plain_def pair_score_def
        compare_arguments_def dict_get_def)
  have c: "pair_score sample_repr gold_book_flight call_book_flight = 1"
    by (simp add: gold_book_flight_def call_book_flight_def pair_score_def
        compare_arguments_def dict_get_def)
  show ?thesis
    using one_to_one_matching [OF a b, of expected_book_flight "[book_flight]"] a b c by simp
qed

subsection \<open>The degenerate case of the task score\<close>

text \<open>
  C3, for \<open>calculate_tool_call_reward\<close>: with an empty list of gold actions and an empty
  trajectory the reward is 0, not 1, since an empty list of matches is given the reward 0.
\<close>

theorem empty_gold_reward_counterexample:
  "extract_tool_calls_from_trajectory sample_loads (tk_traj empty_gold_task) = Inr []
   \<and> gold_actions_of empty_gold_task = Some []
   \<and> fst (projr (calculate_tool_call_reward sample_loads sample_repr empty_gold_task)) \<noteq> 1"
  by (simp add: calculate_tool_call_reward_def match_actions_to_tool_calls_def
      gold_actions_of_def extract_tool_calls_from_trajectory_def empty_gold_task_def)

text \<open>
  C3, as the code has it: for an empty list of expected actions
  \<open>calculate_partial_score\<close> returns 1 when there is no actual call and 0 when there is
  one; \<open>calculate_tool_call_reward\<close> returns 0 for an empty list of gold actions whenever
  the extraction of the tool calls of the trajectory returns, whatever calls it returned.
\<close>

theorem degenerate_task_score:
  "calculate_partial_score [] [] = 1
   \<and> (actual_calls \<noteq> [] \<longrightarrow> calculate_partial_score [] actual_calls = 0)
   \<and> (gold_actions_of task = Some [] \<longrightarrow>
        extract_tool_calls_from_trajectory loads (tk_traj task) = Inr tool_calls \<longrightarrow>
        calculate_tool_call_reward loads repr task =
          Inr (0, \<lparr>d_gold_actions = [], d_extracted_tool_calls = tool_calls, d_matches = [],
                   d_tool_call_reward = 0, d_error = None\<rparr>))"
  by (simp add: calculate_partial_score_def calculate_tool_call_reward_def
      match_actions_to_tool_calls_def)

theorem degenerate_task_score_witness:
  "[book_flight] \<noteq> [] \<and> calculate_partial_score [] [book_flight] = 0
   \<and> gold_actions_of called_gold_task = Some []
   \<and> extract_tool_calls_from_trajectory sample_loads (tk_traj called_gold_task)
       = Inr [\<lparr>t_name = ''book_flight'', t_arguments = Some []\<rparr>]
   \<and> calculate_tool_call_reward sample_loads sample_repr called_gold_task =
        Inr (0, \<lparr>d_gold_actions = [],
                  d_extracted_tool_calls = [\<lparr>t_name = ''book_flight'', t_arguments = Some []\<rparr>],
                  d_matches = [], d_tool_call_reward = 0, d_error = None\<rparr>)"
  using degenerate_task_score [of "[book_flight]" called_gold_task sample_loads
      "[\<lparr>t_name = ''book_flight'', t_arguments = Some []\<rparr>]" sample_repr]
  by (simp add: gold_actions_of_def extract_tool_calls_from_trajectory_def called_gold_task_def
      good_traj_def raw_book_flight_def extract_call_from_def sample_loads_def)

subsection \<open>End-to-end scenario with the 0.4/0.6 weights\<close>

text \<open>
  C6: the expected action \<open>update_user(email = "a@b.com", age = 30)\<close> against the single
  call \<open>update_user(email = "a@b.com", age = 99)\<close> scores \<open>0.4 + 0.6 * 0.5 = 0.7\<close> in
  \<open>calculate_partial_score\<close>: the name matches and one of the two argument keys does.
\<close>

theorem update_user_scenario:
  "calculate_partial_score
     [\<lparr>a_name = Some ''update_user'',
       a_kwargs = Some (VDict [(''email'', VStr ''a@b.com''), (''age'', VInt 30)]),
       a_arguments = None\<rparr>]
     [\<lparr>a_name = Some ''update_user'', a_kwargs = None,
       a_arguments = Some (VDict [(''email'', VStr ''a@b.com''), (''age'', VInt 99)])\<rparr>]
   = 4 / 10 + 6 / 10 * (1 / 2)
   \<and> (4 / 10 + 6 / 10 * (1 / 2) :: rat) = 7 / 10"
  by (simp add: calculate_partial_score_def call_score_def compare_values.simps)

subsection \<open>Equality is tested before the types\<close>

text \<open>
  C9: \<open>compare_values\<close> tests \<open>expected == actual\<close> before it compares the types, so the
  integer 1 against the float 1.0, and \<open>True\<close> against the integer 1, score 1 although
  their types differ.
\<close>

theorem equality_before_type_check:
  "compare_values (VInt 1) (VFloat (Finite 1)) = 1
   \<and> compare_values (VBool True) (VInt 1) = 1
   \<and> py_type (VInt 1) \<noteq> py_type (VFloat (Finite 1))
   \<and> py_type (VBool True) \<noteq> py_type (VInt 1)"
  by (simp add: compare_values.simps)

subsection \<open>Similarity of two mappings\<close>

text \<open>
  C4, for \<open>compare_arguments\<close>: an empty expected mapping against the actual mapping
  \<open>{b: 2}\<close> scores 0, and the key \<open>b\<close> that only the actual mapping has lowers the score
  of \<open>{a: 1}\<close> against \<open>{a: 1, b: 2}\<close> to one half. For \<open>compare_values\<close>: the
  mapping \<open>{x: NaN}\<close> against itself scores 1 by the test of equality although its one
  value scores 0 against itself, and a key that only the actual mapping has lowers that
  score to 0.
\<close>

theorem extra_keys_penalized_counterexample:
  "compare_arguments sample_repr [] [(''b'', VInt 2)] = 0
   \<and> compare_arguments sample_repr [(''a'', VInt 1)] [(''a'', VInt 1), (''b'', VInt 2)] = 1 / 2
   \<and> compare_values (VDict [(''x'', VFloat NaN)]) (VDict [(''x'', VFloat NaN)]) = 1
   \<and> compare_values (VFloat NaN) (VFloat NaN) = 0
   \<and> compare_values (VDict [(''x'', VFloat NaN)])
        (VDict [(''x'', VFloat NaN), (''y'', VInt 1)]) = 0"
  by (simp add: compare_arguments_def dict_get_def compare_values.simps)

text \<open>
  C4, as the code has it. In \<open>compare_values\<close> two mappings that are equal score 1;
  otherwise each key of the expected mapping contributes 0 when the actual mapping lacks
  it and the similarity of the two values when it has it, and the score is the sum divided
  by the number of expected keys, or 1 for an empty expected mapping. When no value of the
  expected mapping is NaN, the second rule gives the score of equal mappings too, and the
  score depends on the actual mapping through the expected keys only: keys of the actual
  mapping alone are ignored. In \<open>compare_arguments\<close> the score is the number of keys
  whose normalized values are equal divided by the number of keys of both mappings
  together.
\<close>

theorem mapping_similarity:
  "compare_values (VDict e) (VDict a) =
     (if py_eq (VDict e) (VDict a) \<or> e = [] then 1
      else (\<Sum>kv\<leftarrow>e. case map_of a (fst kv) of None \<Rightarrow> 0 | Some w \<Rightarrow> compare_values (snd kv) w)
             / of_nat (length e))
   \<and> ((\<forall>kv\<in>set e. snd kv \<noteq> VFloat NaN) \<longrightarrow>
        compare_values (VDict e) (VDict a) =
          (if e = [] then 1
           else (\<Sum>kv\<leftarrow>e. case map_of a (fst kv) of None \<Rightarrow> 0 | Some w \<Rightarrow> compare_values (snd kv) w)
                  / of_nat (length e))
        \<and> ((\<forall>k\<in>fst ` set e. map_of a k = map_of a' k) \<longrightarrow>
              compare_values (VDict e) (VDict a) = compare_values (VDict e) (VDict a')))
   \<and> (\<not> (e = [] \<and> a = []) \<longrightarrow>
        compare_arguments repr e a =
          of_nat (length (filter (\<lambda>key. py_eq (dict_get (normalize_args repr e) key)
                                           (dict_get (normalize_args repr a) key))
                            (remdups (map fst e @ map fst a))))
            / of_nat (length (remdups (map fst e @ map fst a))))"
proof -
  have "compare_values (VDict e) (VDict a) = compare_values (VDict e) (VDict a')"
    if "\<forall>kv\<in>set e. snd kv \<noteq> VFloat NaN" "\<forall>k\<in>fst ` set e. map_of a k = map_of a' k"
    using that sum_cong_keys [of e a a']
    by (simp add: compare_values_dict del: py_eq.simps)
  then show ?thesis
    using compare_values_dict_cases [of e a] compare_values_dict [of e a]
      compare_arguments_count [of e a repr]
    by blast
qed

theorem mapping_similarity_witness:
  "set [(''a'', VInt 1)] = {(''a'', VInt 1)} \<and> VInt 1 \<noteq> VFloat NaN
   \<and> map_of [(''a'', VInt 1), (''b'', VInt 2)] ''a'' = map_of [(''a'', VInt 1)] ''a''
   \<and> compare_values (VDict [(''a'', VInt 1)]) (VDict [(''a'', VInt 1), (''b'', VInt 2)]) = 1
   \<and> compare_values (VDict [(''a'', VInt 1)]) (VDict [(''a'', VInt 1), (''b'', VInt 2)])
       = compare_values (VDict [(''a'', VInt 1)]) (VDict [(''a'', VInt 1)])
   \<and> \<not> ([(''a'', VInt 1)] = [] \<and> [(''a'', VInt 1), (''b'', VInt 2)] = [])
   \<and> compare_arguments sample_repr [(''a'', VInt 1)] [(''a'', VInt 1), (''b'', VInt 2)] = 1 / 2"
  using mapping_similarity [of "[(''a'', VInt 1)]" "[(''a'', VInt 1), (''b'', VInt 2)]"
      "[(''a'', VInt 1)]" sample_repr]
  by (simp add: dict_get_def compare_values_eq)

subsection \<open>Arguments that fail to decode\<close>

text \<open>
  A call whose arguments fail to decode, in \<open>extract_tool_calls\<close>: the bare \<open>except\<close>
  gives it the empty mapping, and each call is extracted by itself.
\<close>

lemma extract_call_decode_failure:
  "f_arguments func = Some args \<Longrightarrow> json_loads loads args = Inl err \<Longrightarrow>
   extract_call loads \<lparr>rc_function = Some func\<rparr>
     = \<lparr>a_name = Some (get_default (f_name func) []), a_kwargs = None,
        a_arguments = Some (VDict [])\<rparr>"
  by (simp add: extract_call_def)

lemma extract_tool_calls_flat:
  "extract_tool_calls loads traj =
     concat (map (\<lambda>m. map (extract_call loads) (get_default (m_tool_calls m) [])) traj)"
  by (simp add: extract_tool_calls_def messages_loop_concat)

text \<open>
  C5: the trajectory with one assistant turn calling \<open>book_flight\<close> with the arguments
  text \<open>{seat\<close>, which fails to decode. \<open>extract_tool_calls_from_trajectory\<close> calls
  \<open>json.loads\<close> with no handler and raises the decode error; \<open>extract_tool_calls\<close> returns
  the call with an empty mapping.
\<close>

theorem undecodable_arguments_raise:
  "sample_loads ''{seat'' = Inl JSONDecodeError
   \<and> extract_tool_calls_from_trajectory sample_loads bad_traj = Inl JSONDecodeError
   \<and> extract_tool_calls sample_loads bad_traj
       = [\<lparr>a_name = Some ''book_flight'', a_kwargs = None, a_arguments = Some (VDict [])\<rparr>]"
  by (simp add: sample_loads_def bad_traj_def raw_book_flight_def
      extract_tool_calls_from_trajectory_def extract_call_from_def
      extract_tool_calls_def extract_call_def)

subsection \<open>Scores lie between 0 and 1\<close>

text \<open>
  C7: \<open>compare_values\<close> and \<open>compare_arguments\<close> return a score between 0 and 1 for all
  values, and so does \<open>calculate_partial_score\<close> for all lists of expected actions and of
  calls; for a non-empty list of expected actions it is the arithmetic mean of the best
  scores of the actions. The reward of \<open>calculate_tool_call_reward\<close>, when it returns
  one, lies between 0 and 1 as well. No division has a zero divisor: each follows a test
  that the list or key set it counts is not empty.
\<close>

theorem scores_in_unit_interval:
  "0 \<le> compare_values expected actual \<and> compare_values expected actual \<le> 1
   \<and> 0 \<le> compare_arguments repr e a \<and> compare_arguments repr e a \<le> 1
   \<and> 0 \<le> calculate_partial_score es calls \<and> calculate_partial_score es calls \<le> 1
   \<and> (es \<noteq> [] \<longrightarrow>
        calculate_partial_score es calls
          = (\<Sum>x\<leftarrow>es. best_score_loop x calls 0) / of_nat (length es))
   \<and> (calculate_tool_call_reward loads repr task = Inr (r, d) \<longrightarrow> 0 \<le> r \<and> r \<le> 1)"
  using loop_bounds(1) [of expected actual] compare_arguments_bounds [of repr e a]
    calculate_partial_score_bounds [of es calls] reward_bounds [of loads repr task r d]
  by (simp add: calculate_partial_score_def total_score_loop_sum)

theorem scores_in_unit_interval_witness:
  "[expected_book_flight, expected_book_flight] \<noteq> []
   \<and> calculate_partial_score [expected_book_flight, expected_book_flight] [cancel_flight]
       = (\<Sum>x\<leftarrow>[expected_book_flight, expected_book_flight]. best_score_loop x [cancel_flight] 0)
           / of_nat (length [expected_book_flight, expected_book_flight])
   \<and> 0 \<le> compare_values (seat_map 2) (seat_map 3) \<and> compare_values (seat_map 2) (seat_map 3) \<le> 1
   \<and> calculate_tool_call_reward sample_loads sample_repr empty_gold_task
       = Inr (0, \<lparr>d_gold_actions = [], d_extracted_tool_calls = [], d_matches = [],
                   d_tool_call_reward = 0, d_error = None\<rparr>)"
  using scores_in_unit_interval [of "seat_map 2" "seat_map 3" sample_repr "[]" "[]"
      "[expected_book_flight, expected_book_flight]" "[cancel_flight]"
      sample_loads empty_gold_task 0
      "\<lparr>d_gold_actions = [], d_extracted_tool_calls = [], d_matches = [],
        d_tool_call_reward = 0, d_error = None\<rparr>"]
  by (simp add: calculate_tool_call_reward_def match_actions_to_tool_calls_def
      gold_actions_of_def extract_tool_calls_from_trajectory_def empty_gold_task_def)

subsection \<open>Which turns contribute tool calls\<close>

text \<open>
  C8, for \<open>extract_tool_calls\<close>: the tool-call list of a turn with the role \<open>user\<close>
  is extracted; \<open>extract_tool_calls_from_trajectory\<close> extracts nothing from that turn.
\<close>

theorem role_ignored_counterexample:
  "extract_tool_calls sample_loads user_traj
     = [\<lparr>a_name = Some ''book_flight'', a_kwargs = None, a_arguments = Some (VDict [])\<rparr>]
   \<and> extract_tool_calls_from_trajectory sample_loads user_traj = Inr []"
  by (simp add: sample_loads_def user_traj_def raw_book_flight_def
      extract_tool_calls_from_trajectory_def extract_call_from_def
      extract_tool_calls_def extract_call_def)

text \<open>
  C8, as the code has it: \<open>extract_tool_calls_from_trajectory\<close> gives the same result on
  a trajectory and on its turns with the role \<open>assistant\<close> and a non-null tool-call list,
  and what it returns is the list of the calls of those turns, in order.
  \<open>extract_tool_calls\<close> does not read the role: it returns the calls of all turns in
  order, every turn contributing the calls of its tool-call list, so its result is the
  same whatever role the turns are given.
\<close>

theorem relevant_turns:
  "extract_tool_calls_from_trajectory loads traj =
     extract_tool_calls_from_trajectory loads
       (filter (\<lambda>m. m_role m = Some ''assistant'' \<and> m_tool_calls m \<noteq> None) traj)
   \<and> (extract_tool_calls_from_trajectory loads traj = Inr tcs \<longrightarrow>
        tcs = concat (map (\<lambda>m. map (\<lambda>c. projr (extract_call_from loads c))
                                  (get_default (m_tool_calls m) []))
                       (filter (\<lambda>m. m_role m = Some ''assistant'' \<and> m_tool_calls m \<noteq> None)
                          traj)))
   \<and> extract_tool_calls loads traj =
        concat (map (\<lambda>m. map (extract_call loads) (get_default (m_tool_calls m) [])) traj)
   \<and> extract_tool_calls loads (map (\<lambda>m. m\<lparr>m_role := r\<rparr>) traj) = extract_tool_calls loads traj"
  using entries_loop_filter [of loads traj "[]"] entries_loop_result [of loads traj "[]" tcs]
  by (simp add: extract_tool_calls_from_trajectory_def extract_tool_calls_def
      messages_loop_concat comp_def)

theorem relevant_turns_witness:
  "extract_tool_calls_from_trajectory sample_loads (user_traj @ good_traj)
     = Inr [\<lparr>t_name = ''book_flight'', t_arguments = Some []\<rparr>]
   \<and> extract_tool_calls_from_trajectory sample_loads good_traj
       = Inr [\<lparr>t_name = ''book_flight'', t_arguments = Some []\<rparr>]
   \<and> [\<lparr>t_name = ''book_flight'', t_arguments = Some []\<rparr>]
       = map (\<lambda>c. projr (extract_call_from sample_loads c)) [raw_book_flight (ArgText ''{}'')]
   \<and> extract_tool_calls sample_loads (user_traj @ good_traj)
       = [\<lparr>a_name = Some ''book_flight'', a_kwargs = None, a_arguments = Some (VDict [])\<rparr>,
          \<lparr>a_name = Some ''book_flight'', a_kwargs = None, a_arguments = Some (VDict [])\<rparr>]
   \<and> extract_tool_calls sample_loads (map (\<lambda>m. m\<lparr>m_role := Some ''user''\<rparr>) good_traj)
       = extract_tool_calls sample_loads good_traj"
  using relevant_turns [of sample_loads "user_traj @ good_traj"
      "[\<lparr>t_name = ''book_flight'', t_arguments = Some []\<rparr>]" "Some ''user''"]
    relevant_turns [of sample_loads good_traj
      "[\<lparr>t_name = ''book_flight'', t_arguments = Some []\<rparr>]" "Some ''user''"]
  by (simp add: user_traj_def good_traj_def raw_book_flight_def sample_loads_def
      extract_tool_calls_from_trajectory_def extract_call_from_def extract_call_def)

subsection \<open>Nested arguments in the improvements variant\<close>

text \<open>
  C10: in \<open>compare_arguments\<close> an expected value that is not \<open>None\<close>, a boolean or a
  number is replaced by its string form, and its key counts as a match exactly when the
  normalized actual value is that string; when the actual value is coerced too, exactly
  when the two string forms are equal. Every key counts as a whole match or not at all:
  the score is the number of matching keys divided by the number of keys.
\<close>

theorem nested_arguments_all_or_nothing:
  assumes "map_of e k = Some v" "py_type v \<notin> {TNone, TBool, TInt, TFloat}"
  shows "dict_get (normalize_args repr e) k = VStr (py_str repr v)
    \<and> py_eq (dict_get (normalize_args repr e) k) (dict_get (normalize_args repr a) k)
        = (dict_get (normalize_args repr a) k = VStr (py_str repr v))
    \<and> (\<forall>w. map_of a k = Some w \<longrightarrow> py_type w \<notin> {TNone, TBool, TInt, TFloat} \<longrightarrow>
          py_eq (dict_get (normalize_args repr e) k) (dict_get (normalize_args repr a) k)
            = (py_str repr v = py_str repr w))
    \<and> compare_arguments repr e a =
        of_nat (length (filter (\<lambda>key. py_eq (dict_get (normalize_args repr e) key)
                                      (dict_get (normalize_args repr a) key))
                       (remdups (map fst e @ map fst a))))
          / of_nat (length (remdups (map fst e @ map fst a)))"
proof -
  have ne: "\<not> (e = [] \<and> a = [])" using assms(1) by auto
  have n: "dict_get (normalize_args repr e) k = VStr (py_str repr v)"
    using assms by (simp add: dict_get_normalize normalize_coerced)
  show ?thesis using n compare_arguments_count [OF ne, of repr]
    by (auto simp: dict_get_normalize normalize_coerced)
qed

theorem nested_arguments_all_or_nothing_witness:
  "map_of [(''a'', seat_map 2)] ''a'' = Some (seat_map 2)
   \<and> py_type (seat_map 2) \<notin> {TNone, TBool, TInt, TFloat}
   \<and> dict_get (normalize_args sample_repr [(''a'', seat_map 2)]) ''a'' = VStr ''{x:1,y:2,}''
   \<and> compare_arguments sample_repr [(''a'', seat_map 2)] [(''a'', seat_map 3)] = 0
   \<and> compare_values (VDict [(''a'', seat_map 2)]) (VDict [(''a'', seat_map 3)]) = 1 / 2"
  using nested_arguments_all_or_nothing [of "[(''a'', seat_map 2)]" "''a''" "seat_map 2"
      sample_repr "[(''a'', seat_map 3)]"]
  by (simp add: dict_get_def seat_map_def compare_values.simps)

end
